theory Spec2Isabelle
  imports Main
begin

section \<open>The Postgres connector: schema introspection and query execution\<close>

text \<open>
  This theory embeds the class \<open>PostgresPlugin\<close> of \<open>src/index.ts\<close>: the fold that turns
  the rows of the two catalog statements into tables with columns and keys, the construction
  of the driver options, and the three operations \<open>execute\<close>, \<open>metadata\<close> and \<open>test\<close>
  with the calls they make on the driver's client. The earlier variant of the same class
  (\<open>unnamed/part_000\<close>, built on \<open>BasePlugin\<close>) is embedded beside it under the names
  \<open>createClient\<close>, \<open>execute_part_000\<close>, \<open>metadata_part_000\<close> and \<open>test_part_000\<close>.
\<close>

subsection \<open>Strings\<close>

text \<open>
  JavaScript's \<open>String.prototype.toLowerCase\<close>, on the ASCII letters. Characters outside
  \<open>A\<close>..\<open>Z\<close> are left as they are. The general results below are stated through the
  comparison \<open>name = toLowerCase name\<close> that the source makes and do not depend on the
  table of letters.
\<close>

definition toLowerCaseChar :: "char \<Rightarrow> char" where
  "toLowerCaseChar c =
     (case map_of (zip ''ABCDEFGHIJKLMNOPQRSTUVWXYZ'' ''abcdefghijklmnopqrstuvwxyz'') c of
        Some l \<Rightarrow> l
      | None \<Rightarrow> c)"

definition toLowerCase :: "string \<Rightarrow> string" where
  "toLowerCase s = map toLowerCaseChar s"

text \<open>The template literal \<open>`"${s}"`\<close>: the string between two double quotes.\<close>

definition quoted :: "string \<Rightarrow> string" where
  "quoted s = [CHR 0x22] @ s @ [CHR 0x22]"

subsection \<open>Catalog rows and the schema result\<close>

text \<open>
  A row of \<open>TableQuery\<close>, with the six columns the statement selects, and a row of
  \<open>KeysQuery\<close>, with its nine columns (\<open>queries.ts\<close>). Nullable columns are options.
\<close>

record attribute =
  name :: string
  column_type :: string
  default_expr :: "string option"
  kind :: string
  table_name :: string
  schema_name :: string

record key_row =
  constraint_name :: string
  constraint_type :: string
  self_schema :: string
  self_table :: string
  self_columns :: string
  foreign_schema :: "string option"
  foreign_table :: "string option"
  foreign_columns :: string
  definition_text :: string

text \<open>
  \<open>Column\<close>, \<open>Table\<close> and \<open>TableType\<close> of the shared package, as \<open>index.ts\<close> uses them:
  \<open>new Column(name, type)\<close>, and \<open>new Table(name, type)\<close> starting with no columns and no
  keys. A key is the object literal \<open>{ name, type }\<close> with \<open>type\<close> one of the two strings
  \<open>primary_key\<close> and \<open>foreign_key\<close>. Field names carry a prefix, since the rows use
  \<open>name\<close> already.
\<close>

datatype column = Column (col_name: string) (col_type: string)

datatype table_type = TABLE

datatype key_type = primary_key | foreign_key

record key_descriptor =
  key_name :: string
  key_type :: key_type

record table =
  tbl_name :: string
  tbl_type :: table_type
  columns :: "column list"
  keys :: "key_descriptor list"

definition Table :: "string \<Rightarrow> table_type \<Rightarrow> table" where
  "Table n ty = \<lparr>tbl_name = n, tbl_type = ty, columns = [], keys = []\<rparr>"

subsection \<open>Folding the column catalog (\<open>metadata\<close>, the \<open>reduce\<close>)\<close>

text \<open>
  The source mutates the table it found with \<open>acc.find\<close> (\<open>entity.columns = ...\<close>,
  \<open>table.keys.push(...)\<close>); the object is the first element of the array that satisfies
  the predicate. \<open>update_first\<close> is that mutation on the list.
\<close>

fun update_first :: "('a \<Rightarrow> bool) \<Rightarrow> ('a \<Rightarrow> 'a) \<Rightarrow> 'a list \<Rightarrow> 'a list" where
  "update_first P f [] = []"
| "update_first P f (x # xs) = (if P x then f x # xs else x # update_first P f xs)"

definition reducer :: "table list \<Rightarrow> attribute \<Rightarrow> table list" where
  "reducer acc attribute =
     (let entityName = table_name attribute;
          entityType = TABLE
      in case find (\<lambda>e. tbl_name e = entityName) acc of
           Some entity \<Rightarrow>
             (let isColumnNameCased = \<not> (name attribute = toLowerCase (name attribute))
              in update_first (\<lambda>e. tbl_name e = entityName)
                   (\<lambda>e. e\<lparr>columns := columns e @
                      [Column (if isColumnNameCased then quoted (name attribute)
                               else name attribute)
                         (column_type attribute)]\<rparr>) acc)
         | None \<Rightarrow>
             (let t = Table entityName entityType
              in acc @ [t\<lparr>columns := columns t @
                         [Column (name attribute) (column_type attribute)]\<rparr>]))"

definition entities_of :: "attribute list \<Rightarrow> table list" where
  "entities_of rows = foldl reducer [] rows"

subsection \<open>Attaching the constraint catalog (\<open>metadata\<close>, the \<open>forEach\<close>)\<close>

definition key_of :: "key_row \<Rightarrow> key_descriptor" where
  "key_of k = \<lparr>key_name = constraint_name k,
               key_type = (if constraint_type k = ''p'' then primary_key else foreign_key)\<rparr>"

definition push_key :: "table list \<Rightarrow> key_row \<Rightarrow> table list" where
  "push_key entities k =
     (case find (\<lambda>e. tbl_name e = self_table k) entities of
        Some t \<Rightarrow> update_first (\<lambda>e. tbl_name e = self_table k)
                    (\<lambda>e. e\<lparr>keys := keys e @ [key_of k]\<rparr>) entities
      | None \<Rightarrow> entities)"

definition attach_keys :: "table list \<Rightarrow> key_row list \<Rightarrow> table list" where
  "attach_keys entities rows = foldl push_key entities rows"

text \<open>The table of a given name, as \<open>entities.find((e) => e.name === n)\<close> returns it.\<close>

definition find_table :: "table list \<Rightarrow> string \<Rightarrow> table option" where
  "find_table entities n = find (\<lambda>e. tbl_name e = n) entities"

subsection \<open>Words of the specification\<close>

text \<open>
  The order of first appearance of the elements of a list, and the column the
  specification's casing rule stores for a row.
\<close>

fun first_appearance :: "'a list \<Rightarrow> 'a list" where
  "first_appearance [] = []"
| "first_appearance (x # xs) = x # filter (\<lambda>y. y \<noteq> x) (first_appearance xs)"

definition cased_column :: "attribute \<Rightarrow> column" where
  "cased_column r =
     Column (if name r = toLowerCase (name r) then name r else quoted (name r)) (column_type r)"

definition plain_column :: "attribute \<Rightarrow> column" where
  "plain_column r = Column (name r) (column_type r)"

definition rows_of :: "string \<Rightarrow> attribute list \<Rightarrow> attribute list" where
  "rows_of n rows = filter (\<lambda>r. table_name r = n) rows"

definition column_list :: "attribute list \<Rightarrow> column list" where
  "column_list rs =
     (case rs of [] \<Rightarrow> [] | r # rest \<Rightarrow> plain_column r # map cased_column rest)"

definition table_for :: "attribute list \<Rightarrow> string \<Rightarrow> table" where
  "table_for rows n =
     \<lparr>tbl_name = n, tbl_type = TABLE, columns = column_list (rows_of n rows), keys = []\<rparr>"

definition spec_entities :: "attribute list \<Rightarrow> table list" where
  "spec_entities rows = map (table_for rows) (first_appearance (map table_name rows))"

subsection \<open>The catalog statements (\<open>queries.ts\<close>)\<close>

definition TableQuery :: string where
  "TableQuery =
     ''select a.attname as name,'' @
     ''       t1.typname as column_type,'' @
     ''       case when a.atthasdef then pg_get_expr(d.adbin, d.adrelid) end as default_expr,'' @
     ''       c.relkind as kind,'' @
     ''       c.relname as table_name,'' @
     ''       n.nspname as schema_name '' @
     ''from pg_catalog.pg_attribute a '' @
     ''         left join pg_catalog.pg_type t1 on t1.oid = a.atttypid '' @
     ''         inner join pg_catalog.pg_class c on a.attrelid = c.oid '' @
     ''         left join pg_catalog.pg_namespace n on c.relnamespace = n.oid '' @
     ''         left join pg_catalog.pg_attrdef d on d.adrelid = c.oid and d.adnum = a.attnum '' @
     ''where a.attnum > 0 '' @
     ''  and not a.attisdropped '' @
     ''  and n.nspname not in ('information_schema', 'pg_catalog') '' @
     ''  and c.relkind in ('r', 'v') '' @
     ''  and pg_catalog.pg_table_is_visible(a.attrelid) '' @
     ''order by c.relname, a.attnum;''"

definition KeysQuery :: string where
  "KeysQuery =
     ''select c.conname as constraint_name,'' @
     ''       c.contype as constraint_type,'' @
     ''       sch.nspname as self_schema,'' @
     ''       tbl.relname as self_table,'' @
     ''       array_agg(col.attname order by u.attposition)     as self_columns,'' @
     ''       f_sch.nspname                                     as foreign_schema,'' @
     ''       f_tbl.relname                                     as foreign_table,'' @
     ''       array_agg(f_col.attname order by f_u.attposition) as foreign_columns,'' @
     ''       pg_get_constraintdef(c.oid)                       as definition'' @
     '' from pg_constraint c '' @
     ''         left join lateral unnest(c.conkey) with ordinality as u(attnum, attposition) on true '' @
     ''         left join lateral unnest(c.confkey) with ordinality as f_u(attnum, attposition) '' @
     ''                   on f_u.attposition = u.attposition '' @
     ''         join pg_class tbl on tbl.oid = c.conrelid '' @
     ''         join pg_namespace sch on sch.oid = tbl.relnamespace '' @
     ''         left join pg_attribute col on (col.attrelid = tbl.oid and col.attnum = u.attnum) '' @
     ''         left join pg_class f_tbl on f_tbl.oid = c.confrelid '' @
     ''         left join pg_namespace f_sch on f_sch.oid = f_tbl.relnamespace '' @
     ''         left join pg_attribute f_col on (f_col.attrelid = f_tbl.oid and f_col.attnum = f_u.attnum) '' @
     ''group by constraint_name, constraint_type, self_schema, self_table, definition, foreign_schema, foreign_table '' @
     ''order by self_schema, self_table''"

subsection \<open>Configuration and driver options\<close>

text \<open>
  \<open>PostgresDatasourceConfiguration\<close>, as far as \<open>createConnection\<close> reads it. A part the
  source tests for presence (\<open>!endpoint\<close>, \<open>!auth\<close>, \<open>auth.custom?.databaseName?.value\<close>,
  \<open>connection?.useSsl\<close>) is an option; the two flags are booleans, an absent flag being
  \<open>False\<close> as it is falsy.
\<close>

record endpoint =
  host :: string
  port :: nat

record property =
  pvalue :: "string option"

record custom =
  databaseName :: "property option"

record authentication =
  username :: string
  password :: string
  custom :: "custom option"

record connection =
  useSsl :: bool
  useSelfSignedSsl :: bool
  ca :: "string option"
  key :: "string option"
  cert :: "string option"

record datasource =
  endpoint :: "endpoint option"
  authentication :: "authentication option"
  connection :: "connection option"

text \<open>
  \<open>ssl_config\<close> is a \<open>Record<string, unknown>\<close>: the properties in the order they are
  set, each with its value. The argument of \<open>new Client\<close> is the record \<open>client_config\<close>;
  \<open>ssl = None\<close> is \<open>ssl: undefined\<close>.
\<close>

datatype js_value = JBool bool | JStr string | JUndefined

type_synonym ssl_config = "(string \<times> js_value) list"

definition js_of :: "string option \<Rightarrow> js_value" where
  "js_of v = (case v of None \<Rightarrow> JUndefined | Some s \<Rightarrow> JStr s)"

record client_config =
  cc_host :: string
  cc_user :: string
  cc_password :: string
  cc_database :: string
  cc_port :: nat
  cc_ssl :: "ssl_config option"
  connectionTimeoutMillis :: nat

definition build_ssl_config :: "connection option \<Rightarrow> ssl_config option" where
  "build_ssl_config conn =
     (case conn of
        None \<Rightarrow> None
      | Some c \<Rightarrow>
          if useSsl c then
            (let ssl_config = [(''rejectUnauthorized'', JBool False)]
             in if useSelfSignedSsl c then
                  Some (ssl_config @ [(''ca'', js_of (ca c)), (''key'', js_of (key c)),
                                      (''cert'', js_of (cert c))])
                else Some ssl_config)
          else None)"

text \<open>
  \<open>auth.custom?.databaseName?.value\<close>, when it is truthy: a missing link of the chain
  and the empty string both count as no database.
\<close>

definition database_value :: "authentication \<Rightarrow> string option" where
  "database_value auth =
     (case custom auth of
        None \<Rightarrow> None
      | Some c \<Rightarrow>
          (case databaseName c of
             None \<Rightarrow> None
           | Some p \<Rightarrow>
               (case pvalue p of
                  None \<Rightarrow> None
                | Some v \<Rightarrow> if v = [] then None else Some v)))"

subsection \<open>The driver, its calls, and operations that can fail\<close>

text \<open>
  The client of the \<open>pg\<close> driver is outside the repository. What it answers is a parameter:
  whether \<open>connect\<close> rejects (with which message), what \<open>query\<close> answers to the user's
  statement, to each of the two catalog statements and to \<open>SELECT NOW()\<close>, and whether
  \<open>end\<close> rejects. The catalog statements answer rows of their fixed shape. Every call made
  on the client is logged in order, so that opens, statements and closes can be counted.
\<close>

type_synonym raw_row = "(string \<times> string) list"

record driver =
  connect_rejects :: "client_config \<Rightarrow> string option"
  user_answer :: "string \<Rightarrow> string list \<Rightarrow> string + raw_row list"
  table_answer :: "string + attribute list"
  keys_answer :: "string + key_row list"
  now_answer :: "string + raw_row list"
  end_rejects :: "string option"

datatype call = Connect client_config | Query string "string list" | End

datatype error = IntegrationError string | DriverError string

fun message :: "error \<Rightarrow> string" where
  "message (IntegrationError m) = m"
| "message (DriverError m) = m"

text \<open>
  An asynchronous computation of the source is its outcome (an error thrown or a value)
  together with the calls it made on the client. \<open>bind_io\<close> is sequencing with \<open>await\<close>,
  \<open>catch_io\<close> is \<open>try ... catch (err)\<close>, and \<open>finally_io\<close> is \<open>finally\<close> with
  JavaScript's rule: the block always runs, and an error thrown inside it replaces the
  outcome of the \<open>try\<close>. \<open>swallow\<close> is \<open>.catch(() => {})\<close> on a promise that is not
  awaited: the call is made and its failure is dropped.
\<close>

type_synonym 'a io = "(error + 'a) \<times> call list"

definition return_io :: "'a \<Rightarrow> 'a io" where
  "return_io x = (Inr x, [])"

definition throw_io :: "error \<Rightarrow> 'a io" where
  "throw_io e = (Inl e, [])"

definition bind_io :: "'a io \<Rightarrow> ('a \<Rightarrow> 'b io) \<Rightarrow> 'b io" where
  "bind_io m f =
     (case m of
        (Inl e, tr) \<Rightarrow> (Inl e, tr)
      | (Inr x, tr) \<Rightarrow> (case f x of (r, tr') \<Rightarrow> (r, tr @ tr')))"

definition catch_io :: "'a io \<Rightarrow> (error \<Rightarrow> 'a io) \<Rightarrow> 'a io" where
  "catch_io m h =
     (case m of
        (Inl e, tr) \<Rightarrow> (case h e of (r, tr') \<Rightarrow> (r, tr @ tr'))
      | (Inr x, tr) \<Rightarrow> (Inr x, tr))"

definition finally_io :: "'a io \<Rightarrow> unit io \<Rightarrow> 'a io" where
  "finally_io m c =
     (case m of
        (r, tr) \<Rightarrow>
          (case c of
             (Inl e, tr') \<Rightarrow> (Inl e, tr @ tr')
           | (Inr u, tr') \<Rightarrow> (r, tr @ tr')))"

definition swallow :: "unit io \<Rightarrow> unit io" where
  "swallow m = (Inr (), snd m)"

definition outcome :: "'a io \<Rightarrow> error + 'a" where
  "outcome m = fst m"

definition calls :: "'a io \<Rightarrow> call list" where
  "calls m = snd m"

definition is_connect :: "call \<Rightarrow> bool" where
  "is_connect c = (case c of Connect cfg \<Rightarrow> True | _ \<Rightarrow> False)"

definition is_query :: "call \<Rightarrow> bool" where
  "is_query c = (case c of Query q ps \<Rightarrow> True | _ \<Rightarrow> False)"

definition opens :: "'a io \<Rightarrow> nat" where
  "opens m = length (filter is_connect (calls m))"

definition statements :: "'a io \<Rightarrow> nat" where
  "statements m = length (filter is_query (calls m))"

definition closes :: "'a io \<Rightarrow> nat" where
  "closes m = length (filter (\<lambda>c. c = End) (calls m))"

text \<open>The methods of the client.\<close>

definition client_connect :: "driver \<Rightarrow> client_config \<Rightarrow> unit io" where
  "client_connect d cfg =
     (case connect_rejects d cfg of
        Some m \<Rightarrow> (Inl (DriverError m), [Connect cfg])
      | None \<Rightarrow> (Inr (), [Connect cfg]))"

definition answer_io :: "string + 'a \<Rightarrow> string \<Rightarrow> string list \<Rightarrow> 'a io" where
  "answer_io a q ps =
     (case a of
        Inl m \<Rightarrow> (Inl (DriverError m), [Query q ps])
      | Inr rows \<Rightarrow> (Inr rows, [Query q ps]))"

definition client_query :: "driver \<Rightarrow> string \<Rightarrow> string list \<Rightarrow> raw_row list io" where
  "client_query d q ps = answer_io (user_answer d q ps) q ps"

definition client_query_tables :: "driver \<Rightarrow> attribute list io" where
  "client_query_tables d = answer_io (table_answer d) TableQuery []"

definition client_query_keys :: "driver \<Rightarrow> key_row list io" where
  "client_query_keys d = answer_io (keys_answer d) KeysQuery []"

definition client_query_now :: "driver \<Rightarrow> raw_row list io" where
  "client_query_now d = answer_io (now_answer d) ''SELECT NOW()'' []"

definition client_end :: "driver \<Rightarrow> unit io" where
  "client_end d =
     (case end_rejects d of
        Some m \<Rightarrow> (Inl (DriverError m), [End])
      | None \<Rightarrow> (Inr (), [End]))"

subsection \<open>Opening and closing (\<open>createConnection\<close>, \<open>destroyConnection\<close>, \<open>createClient\<close>)\<close>

text \<open>
  \<open>connect_with\<close> is the part the two variants of the source share word for word: the
  checks of endpoint, authentication and database name, the TLS options, \<open>new Client\<close>
  and \<open>await client.connect()\<close>. The client that is returned is identified with the options
  it was built from. Attaching the logger and the debug line only write to the log and are
  not modelled. The decorators \<open>@CreateConnection\<close> and \<open>@DestroyConnection\<close> and the
  inherited \<open>executeQuery\<close> belong to the shared backend package; they are taken to run
  the method or callback they are given and pass its outcome on, as the mocks of
  \<open>index.test.ts\<close> do for the decorators.
\<close>

definition connect_with :: "driver \<Rightarrow> datasource \<Rightarrow> nat \<Rightarrow> client_config io" where
  "connect_with d datasourceConfiguration timeout =
     (case endpoint datasourceConfiguration of
        None \<Rightarrow> throw_io (IntegrationError ''Endpoint not specified for Postgres step'')
      | Some ep \<Rightarrow>
          (case authentication datasourceConfiguration of
             None \<Rightarrow> throw_io (IntegrationError ''Authentication not specified for Postgres step'')
           | Some auth \<Rightarrow>
               (case database_value auth of
                  None \<Rightarrow> throw_io (IntegrationError ''Database not specified for Postgres step'')
                | Some db \<Rightarrow>
                    (let client = \<lparr>cc_host = host ep, cc_user = username auth,
                                    cc_password = password auth, cc_database = db,
                                    cc_port = port ep,
                                    cc_ssl = build_ssl_config (connection datasourceConfiguration),
                                    connectionTimeoutMillis = timeout\<rparr>
                     in bind_io (client_connect d client) (\<lambda>u. return_io client)))))"

definition createConnection :: "driver \<Rightarrow> datasource option \<Rightarrow> nat \<Rightarrow> client_config io" where
  "createConnection d datasourceConfiguration timeout =
     (case datasourceConfiguration of
        None \<Rightarrow> throw_io (IntegrationError ''Datasource not found for Postgres step'')
      | Some ds \<Rightarrow> connect_with d ds timeout)"

definition createClient :: "driver \<Rightarrow> datasource option \<Rightarrow> nat \<Rightarrow> client_config io" where
  "createClient d datasourceConfiguration timeout =
     (case datasourceConfiguration of
        None \<Rightarrow> throw_io (IntegrationError ''Datasource not found for Postgres step'')
      | Some ds \<Rightarrow>
          catch_io (connect_with d ds timeout)
            (\<lambda>err. throw_io (IntegrationError (''Failed to connect to Postgres, '' @ message err))))"

definition destroyConnection :: "driver \<Rightarrow> client_config \<Rightarrow> unit io" where
  "destroyConnection d client = client_end d"

definition executeQuery :: "'a io \<Rightarrow> 'a io" where
  "executeQuery queryFunc = queryFunc"

definition valid_config :: "datasource option \<Rightarrow> bool" where
  "valid_config cfg =
     (case cfg of
        None \<Rightarrow> False
      | Some ds \<Rightarrow>
          (case (endpoint ds, authentication ds) of
             (Some ep, Some auth) \<Rightarrow> database_value auth \<noteq> None
           | _ \<Rightarrow> False))"

subsection \<open>\<open>execute\<close>\<close>

text \<open>
  \<open>isEmpty\<close> of lodash on the action's \<open>body\<close>, a string or \<open>undefined\<close>: true for
  \<open>undefined\<close> and for the string of length 0. \<open>new ExecutionOutput()\<close> is the output not
  yet set. \<open>normalizeTableColumnNames\<close> belongs to the shared backend package and is a
  parameter. In \<open>finally\<close>, \<open>if (client)\<close> tests an object that \<open>createConnection\<close>
  returned, so the branch is always taken.
\<close>

definition isEmpty :: "string option \<Rightarrow> bool" where
  "isEmpty q = (case q of None \<Rightarrow> True | Some s \<Rightarrow> length s = 0)"

definition text_of :: "string option \<Rightarrow> string" where
  "text_of q = (case q of None \<Rightarrow> [] | Some s \<Rightarrow> s)"

record execution_output =
  exec_output :: "raw_row list option"

definition ExecutionOutput :: execution_output where
  "ExecutionOutput = \<lparr>exec_output = None\<rparr>"

definition execute ::
  "driver \<Rightarrow> (raw_row list \<Rightarrow> raw_row list) \<Rightarrow> datasource option \<Rightarrow> string option \<Rightarrow>
   string list \<Rightarrow> execution_output io" where
  "execute d normalizeTableColumnNames datasourceConfiguration body preparedStatementContext =
     bind_io (createConnection d datasourceConfiguration 30000) (\<lambda>client.
       let query = body; ret = ExecutionOutput
       in if isEmpty query then return_io ret
          else
            bind_io
              (finally_io
                 (catch_io
                    (executeQuery (client_query d (text_of query) preparedStatementContext))
                    (\<lambda>err. throw_io (IntegrationError (''Postgres query failed, '' @ message err))))
                 (swallow (destroyConnection d client)))
              (\<lambda>rows. return_io (ret\<lparr>exec_output := Some (normalizeTableColumnNames rows)\<rparr>)))"

definition execute_part_000 ::
  "driver \<Rightarrow> (raw_row list \<Rightarrow> raw_row list) \<Rightarrow> datasource option \<Rightarrow> string option \<Rightarrow>
   string list \<Rightarrow> execution_output io" where
  "execute_part_000 d normalizeTableColumnNames datasourceConfiguration body
     preparedStatementContext =
     bind_io (createClient d datasourceConfiguration 30000) (\<lambda>client.
       finally_io
         (catch_io
            (let query = body; ret = ExecutionOutput
             in if isEmpty query then return_io ret
                else bind_io (client_query d (text_of query) preparedStatementContext)
                       (\<lambda>rows. return_io (ret\<lparr>exec_output := Some (normalizeTableColumnNames rows)\<rparr>)))
            (\<lambda>err. throw_io (IntegrationError (''Postgres query failed, '' @ message err))))
         (client_end d))"

subsection \<open>\<open>metadata\<close>\<close>

record datasource_metadata =
  dbSchema_tables :: "table list"

definition introspect :: "driver \<Rightarrow> datasource_metadata io" where
  "introspect d =
     bind_io (executeQuery (client_query_tables d)) (\<lambda>tableResult.
       let entities = entities_of tableResult
       in bind_io (executeQuery (client_query_keys d)) (\<lambda>keysResult.
            return_io \<lparr>dbSchema_tables = attach_keys entities keysResult\<rparr>))"

definition metadata :: "driver \<Rightarrow> datasource option \<Rightarrow> datasource_metadata io" where
  "metadata d datasourceConfiguration =
     bind_io (createConnection d datasourceConfiguration 30000) (\<lambda>client.
       finally_io
         (catch_io (introspect d)
            (\<lambda>err. throw_io (IntegrationError (''Failed to connect to Postgres, '' @ message err))))
         (swallow (destroyConnection d client)))"

text \<open>
  In the earlier variant \<open>client\<close> is assigned inside \<open>try\<close>, so \<open>finally\<close> closes it only
  when \<open>createClient\<close> returned, and \<open>client.end()\<close> is awaited there.
\<close>

definition metadata_part_000 :: "driver \<Rightarrow> datasource option \<Rightarrow> datasource_metadata io" where
  "metadata_part_000 d datasourceConfiguration =
     (let opened = createClient d datasourceConfiguration 30000
      in finally_io
           (catch_io (bind_io opened (\<lambda>client. introspect d))
              (\<lambda>err. throw_io (IntegrationError (''Failed to connect to Postgres, '' @ message err))))
           (case outcome opened of
              Inr client \<Rightarrow> client_end d
            | Inl err \<Rightarrow> return_io ()))"

subsection \<open>\<open>test\<close>\<close>

definition TEST_CONNECTION_TIMEOUT :: nat where
  "TEST_CONNECTION_TIMEOUT = 5000"

definition test :: "driver \<Rightarrow> datasource option \<Rightarrow> unit io" where
  "test d datasourceConfiguration =
     (let opened = createConnection d datasourceConfiguration TEST_CONNECTION_TIMEOUT
      in finally_io
           (catch_io
              (bind_io opened (\<lambda>client.
                 bind_io (executeQuery (client_query_now d)) (\<lambda>rows. return_io ())))
              (\<lambda>err. throw_io (IntegrationError (''Test Postgres connection failed, '' @ message err))))
           (case outcome opened of
              Inr client \<Rightarrow> swallow (destroyConnection d client)
            | Inl err \<Rightarrow> return_io ()))"

definition test_part_000 :: "driver \<Rightarrow> datasource option \<Rightarrow> unit io" where
  "test_part_000 d datasourceConfiguration =
     (let opened = createClient d datasourceConfiguration TEST_CONNECTION_TIMEOUT
      in finally_io
           (catch_io
              (bind_io opened (\<lambda>client.
                 bind_io (client_query_now d) (\<lambda>rows. return_io ())))
              (\<lambda>err. throw_io (IntegrationError (''Test Postgres connection failed, '' @ message err))))
           (case outcome opened of
              Inr client \<Rightarrow> client_end d
            | Inl err \<Rightarrow> return_io ()))"

subsection \<open>Predicates of the specification on configurations and results\<close>

definition tls_enabled :: "datasource \<Rightarrow> bool" where
  "tls_enabled ds = (case connection ds of None \<Rightarrow> False | Some c \<Rightarrow> useSsl c)"

definition self_signed_mode :: "datasource \<Rightarrow> bool" where
  "self_signed_mode ds = (case connection ds of None \<Rightarrow> False | Some c \<Rightarrow> useSelfSignedSsl c)"

definition configured :: "(connection \<Rightarrow> string option) \<Rightarrow> datasource \<Rightarrow> js_value" where
  "configured field ds = (case connection ds of None \<Rightarrow> JUndefined | Some c \<Rightarrow> js_of (field c))"

definition attached :: "ssl_config \<Rightarrow> string \<Rightarrow> bool" where
  "attached cfg k = (k \<in> set (map fst cfg))"

definition starts_with :: "string \<Rightarrow> string \<Rightarrow> bool" where
  "starts_with p s = (take (length p) s = p)"

definition whitespace_only :: "string \<Rightarrow> bool" where
  "whitespace_only s =
     (s \<noteq> [] \<and> list_all (\<lambda>c. List.member [CHR '' '', CHR 0x09, CHR 0x0A, CHR 0x0D] c) s)"

subsection \<open>Sample inputs\<close>

definition attribute_row :: "string \<Rightarrow> string \<Rightarrow> string \<Rightarrow> string \<Rightarrow> attribute" where
  "attribute_row n ty tn sn =
     \<lparr>name = n, column_type = ty, default_expr = None, kind = ''r'', table_name = tn,
      schema_name = sn\<rparr>"

definition constraint_row :: "string \<Rightarrow> string \<Rightarrow> string \<Rightarrow> key_row" where
  "constraint_row cn ct tn =
     \<lparr>constraint_name = cn, constraint_type = ct, self_schema = ''public'', self_table = tn,
      self_columns = ''{id}'', foreign_schema = None, foreign_table = None,
      foreign_columns = ''{NULL}'', definition_text = []\<rparr>"

definition sample_rows :: "attribute list" where
  "sample_rows =
     [attribute_row ''id'' ''int4'' ''orders'' ''public'',
      attribute_row ''Total'' ''numeric'' ''orders'' ''public'',
      attribute_row ''Id'' ''int4'' ''users'' ''public'',
      attribute_row ''note'' ''text'' ''orders'' ''sales'']"

definition sample_keys :: "key_row list" where
  "sample_keys =
     [constraint_row ''orders_pkey'' ''p'' ''orders'',
      constraint_row ''audit_pkey'' ''p'' ''audit'',
      constraint_row ''orders_user_fkey'' ''f'' ''orders'',
      constraint_row ''orders_pkey'' ''p'' ''orders'',
      constraint_row ''users_email_key'' ''u'' ''users'']"

definition sample_datasource :: datasource where
  "sample_datasource =
     \<lparr>endpoint = Some \<lparr>host = ''localhost'', port = 5432\<rparr>,
      authentication = Some \<lparr>username = ''app'', password = ''secret'',
                              custom = Some \<lparr>databaseName = Some \<lparr>pvalue = Some ''shop''\<rparr>\<rparr>\<rparr>,
      connection = Some \<lparr>useSsl = True, useSelfSignedSsl = True, ca = Some ''CA'',
                          key = Some ''KEY'', cert = None\<rparr>\<rparr>"

definition sample_driver :: driver where
  "sample_driver =
     \<lparr>connect_rejects = (\<lambda>c. None),
      user_answer = (\<lambda>q ps. Inr [[(''count'', ''1'')]]),
      table_answer = Inr sample_rows,
      keys_answer = Inr sample_keys,
      now_answer = Inr [[(''now'', ''2022-01-01'')]],
      end_rejects = None\<rparr>"

definition refusing_driver :: driver where
  "refusing_driver =
     sample_driver\<lparr>connect_rejects := (\<lambda>c. Some ''connect ECONNREFUSED 127.0.0.1:5432'')\<rparr>"

definition failing_driver :: driver where
  "failing_driver =
     sample_driver\<lparr>user_answer := (\<lambda>q ps. Inl ''syntax error at or near SELEC''),
                   keys_answer := Inl ''permission denied for table pg_constraint'',
                   now_answer := Inl ''terminating connection due to administrator command'',
                   end_rejects := Some ''socket hang up''\<rparr>"

definition table_failing_driver :: driver where
  "table_failing_driver =
     failing_driver\<lparr>table_answer := Inl ''permission denied for table pg_attribute''\<rparr>"

definition plain_datasource :: datasource where
  "plain_datasource = sample_datasource\<lparr>connection := None\<rparr>"

section \<open>Properties of the fold\<close>

subsection \<open>The fold computes the grouped tables\<close>

lemma set_first_appearance: "set (first_appearance xs) = set xs"
  by (induction xs) auto

lemma distinct_first_appearance: "distinct (first_appearance xs)"
  by (induction xs) (auto simp: set_first_appearance)

lemma first_appearance_snoc:
  "first_appearance (xs @ [x]) =
     (if x \<in> set xs then first_appearance xs else first_appearance xs @ [x])"
  by (induction xs) (auto simp: set_first_appearance)

lemma length_first_appearance: "length (first_appearance xs) = card (set xs)"
  using distinct_card [OF distinct_first_appearance, of xs]
  by (simp add: set_first_appearance)

lemma find_table_for:
  "find (\<lambda>e. tbl_name e = n) (map (table_for rows) ns) =
     (if n \<in> set ns then Some (table_for rows n) else None)"
  by (induction ns) (auto simp: table_for_def)

lemma update_first_table_for:
  "distinct ns \<Longrightarrow>
   update_first (\<lambda>e. tbl_name e = n) f (map (table_for rows) ns) =
     map (\<lambda>m. if m = n then f (table_for rows m) else table_for rows m) ns"
  by (induction ns) (auto simp: table_for_def)

lemma column_list_snoc:
  "rs \<noteq> [] \<Longrightarrow> column_list (rs @ [r]) = column_list rs @ [cased_column r]"
  by (cases rs) (simp_all add: column_list_def)

lemma rows_of_snoc:
  "rows_of n (rows @ [r]) = (if table_name r = n then rows_of n rows @ [r] else rows_of n rows)"
  by (simp add: rows_of_def)

lemma rows_of_empty_iff: "rows_of n rows = [] \<longleftrightarrow> n \<notin> set (map table_name rows)"
  by (auto simp: rows_of_def filter_empty_conv)

lemma reducer_spec: "reducer (spec_entities rows) r = spec_entities (rows @ [r])"
proof (cases "table_name r \<in> set (map table_name rows)")
  case True
  then have ne: "rows_of (table_name r) rows \<noteq> []" by (simp add: rows_of_empty_iff)
  from True ne show ?thesis
    by (auto simp: reducer_def spec_entities_def find_table_for update_first_table_for
        distinct_first_appearance set_first_appearance
        first_appearance_snoc table_for_def rows_of_snoc column_list_snoc cased_column_def)
next
  case False
  then have e: "rows_of (table_name r) rows = []" by (simp add: rows_of_empty_iff)
  from False e show ?thesis
    by (auto simp: reducer_def spec_entities_def find_table_for set_first_appearance
        first_appearance_snoc table_for_def rows_of_snoc column_list_def plain_column_def Table_def)
qed

lemma entities_of_spec: "entities_of rows = spec_entities rows"
proof (induction rows rule: rev_induct)
  case Nil
  show ?case by (simp add: entities_of_def spec_entities_def)
next
  case (snoc r rows)
  then show ?case by (simp add: entities_of_def reducer_spec)
qed

lemma col_type_column_list: "map col_type (column_list rs) = map column_type rs"
  by (cases rs) (simp_all add: column_list_def plain_column_def cased_column_def)

text \<open>
  Claim C4. Folding any sequence of column-catalog rows that spans K distinct table names
  yields exactly K tables; the tables come in the order in which their names first appear in
  the stream, and the columns of each table are those of the rows of that table, in the order
  of the stream.
\<close>

theorem fold_tables_and_order:
  "length (entities_of rows) = card (set (map table_name rows)) \<and>
   map tbl_name (entities_of rows) = first_appearance (map table_name rows) \<and>
   (\<forall>t \<in> set (entities_of rows).
      columns t = column_list (rows_of (tbl_name t) rows) \<and>
      map col_type (columns t) = map column_type (rows_of (tbl_name t) rows))"
proof -
  have a: "length (entities_of rows) = card (set (map table_name rows))"
    by (simp add: entities_of_spec spec_entities_def length_first_appearance)
  have b: "map tbl_name (entities_of rows) = first_appearance (map table_name rows)"
    by (simp add: entities_of_spec spec_entities_def table_for_def comp_def)
  have c: "columns t = column_list (rows_of (tbl_name t) rows)" if "t \<in> set (entities_of rows)" for t
    using that by (auto simp: entities_of_spec spec_entities_def table_for_def)
  show ?thesis using a b c by (simp add: col_type_column_list)
qed


theorem fold_tables_and_order_witness:
  "entities_of sample_rows \<noteq> [] \<and>
   length (entities_of sample_rows) = 2 \<and>
   map tbl_name (entities_of sample_rows) = [''orders'', ''users''] \<and>
   map columns (entities_of sample_rows) =
     [[Column ''id'' ''int4'', Column (quoted ''Total'') ''numeric'', Column ''note'' ''text''],
      [Column ''Id'' ''int4'']]"
proof -
  note T = fold_tables_and_order [of sample_rows]
  have names: "map table_name sample_rows = [''orders'', ''orders'', ''users'', ''orders'']"
    by (simp add: sample_rows_def attribute_row_def)
  have n: "map tbl_name (entities_of sample_rows) = [''orders'', ''users'']"
    using T by (simp add: names)
  have l: "length (entities_of sample_rows) = 2"
    using arg_cong [OF n, of length] by simp
  have "map columns (entities_of sample_rows) =
          map (\<lambda>t. column_list (rows_of (tbl_name t) sample_rows)) (entities_of sample_rows)"
    using T by simp
  also have "\<dots> = map (\<lambda>n. column_list (rows_of n sample_rows)) (map tbl_name (entities_of sample_rows))"
    by (simp add: comp_def)
  also have "\<dots> = [[Column ''id'' ''int4'', Column (quoted ''Total'') ''numeric'', Column ''note'' ''text''],
      [Column ''Id'' ''int4'']]"
    unfolding n
    by (simp add: sample_rows_def attribute_row_def rows_of_def column_list_def plain_column_def
        cased_column_def toLowerCase_def toLowerCaseChar_def)
  finally have c: "map columns (entities_of sample_rows) =
     [[Column ''id'' ''int4'', Column (quoted ''Total'') ''numeric'', Column ''note'' ''text''],
      [Column ''Id'' ''int4'']]" .
  from l have "entities_of sample_rows \<noteq> []" by auto
  with n l c show ?thesis by simp
qed

subsection \<open>Column-name casing\<close>

lemma find_update_first_same:
  assumes "\<And>e. tbl_name (f e) = tbl_name e" and "find (\<lambda>e. tbl_name e = m) xs = Some x"
  shows "find (\<lambda>e. tbl_name e = m) (update_first (\<lambda>e. tbl_name e = m) f xs) = Some (f x)"
  using assms by (induction xs) (auto split: if_splits)

lemma find_update_first_other:
  assumes "\<And>e. tbl_name (f e) = tbl_name e" and "n \<noteq> m"
  shows "find (\<lambda>e. tbl_name e = n) (update_first (\<lambda>e. tbl_name e = m) f xs) =
         find (\<lambda>e. tbl_name e = n) xs"
  using assms by (induction xs) (auto split: if_splits)

lemma later_column_cased:
  assumes "find_table acc (table_name r) = Some t"
  shows "find_table (reducer acc r) (table_name r) =
           Some (t\<lparr>columns := columns t @ [cased_column r]\<rparr>)"
proof -
  have "find_table (reducer acc r) (table_name r) =
          find (\<lambda>e. tbl_name e = table_name r)
            (update_first (\<lambda>e. tbl_name e = table_name r)
               (\<lambda>e. e\<lparr>columns := columns e @ [cased_column r]\<rparr>) acc)"
    using assms by (auto simp: find_table_def reducer_def cased_column_def)
  also have "\<dots> = Some (t\<lparr>columns := columns t @ [cased_column r]\<rparr>)"
    using assms unfolding find_table_def by (intro find_update_first_same) simp_all
  finally show ?thesis .
qed

text \<open>
  Claim C2. A column name that is not entirely lowercase is stored between double quotes,
  whether its row is the first of its table or a later one. The source quotes only in the
  branch that extends a table already present; the branch that creates the table stores the
  raw name. Evaluated on the single row \<open>Id\<close> of table \<open>orders\<close>: the column is stored as
  \<open>Id\<close>, not as \<open>"Id"\<close>, while the same row after a first row of the table is stored
  quoted.
\<close>

theorem first_column_stored_unquoted:
  "name (attribute_row ''Id'' ''int4'' ''orders'' ''public'') \<noteq>
     toLowerCase (name (attribute_row ''Id'' ''int4'' ''orders'' ''public'')) \<and>
   entities_of [attribute_row ''Id'' ''int4'' ''orders'' ''public''] =
     [\<lparr>tbl_name = ''orders'', tbl_type = TABLE, columns = [Column ''Id'' ''int4''], keys = []\<rparr>] \<and>
   entities_of [attribute_row ''id'' ''int4'' ''orders'' ''public'',
                attribute_row ''Id'' ''int4'' ''orders'' ''public''] =
     [\<lparr>tbl_name = ''orders'', tbl_type = TABLE,
       columns = [Column ''id'' ''int4'', Column (quoted ''Id'') ''int4''], keys = []\<rparr>]"
  by (simp add: entities_of_def reducer_def attribute_row_def Table_def toLowerCase_def
      toLowerCaseChar_def)

subsection \<open>Keys\<close>

lemma find_none_update_first: "find P xs = None \<Longrightarrow> update_first P f xs = xs"
  by (induction xs) (auto split: if_splits)

lemma map_update_first: "(\<And>y. g (f y) = g y) \<Longrightarrow> map g (update_first P f xs) = map g xs"
  by (induction xs) auto

lemma find_table_push_key_same:
  "find_table es (self_table k) = Some t \<Longrightarrow>
   find_table (push_key es k) (self_table k) = Some (t\<lparr>keys := keys t @ [key_of k]\<rparr>)"
  unfolding find_table_def push_key_def
  by (simp add: find_update_first_same [where f = "\<lambda>e. e\<lparr>keys := keys e @ [key_of k]\<rparr>"])

lemma find_table_push_key_other:
  "n \<noteq> self_table k \<Longrightarrow> find_table (push_key es k) n = find_table es n"
  unfolding find_table_def push_key_def
  by (simp add: find_update_first_other [where f = "\<lambda>e. e\<lparr>keys := keys e @ [key_of k]\<rparr>"]
      split: option.splits)

lemma push_key_absent: "find_table es (self_table k) = None \<Longrightarrow> push_key es k = es"
  by (simp add: find_table_def push_key_def)

lemma names_push_key: "map tbl_name (push_key es k) = map tbl_name es"
  by (simp add: push_key_def map_update_first split: option.splits)

lemma find_table_push_key:
  "find_table (push_key es k) n =
     map_option (\<lambda>t. t\<lparr>keys := keys t @ map key_of (filter (\<lambda>k. self_table k = n) [k])\<rparr>)
       (find_table es n)"
proof (cases "n = self_table k")
  case True
  show ?thesis
  proof (cases "find_table es n")
    case None
    with True show ?thesis by (simp add: push_key_absent)
  next
    case (Some t)
    with True show ?thesis by (simp add: find_table_push_key_same)
  qed
next
  case False
  then show ?thesis by (cases "find_table es n") (auto simp: find_table_push_key_other)
qed

lemma find_table_attach_keys:
  "find_table (attach_keys es ks) n =
     map_option (\<lambda>t. t\<lparr>keys := keys t @ map key_of (filter (\<lambda>k. self_table k = n) ks)\<rparr>)
       (find_table es n)"
proof (induction ks rule: rev_induct)
  case Nil
  show ?case by (cases "find_table es n") (simp_all add: attach_keys_def)
next
  case (snoc k ks)
  have "attach_keys es (ks @ [k]) = push_key (attach_keys es ks) k"
    by (simp add: attach_keys_def)
  then show ?case using snoc
    by (cases "find_table es n") (auto simp: find_table_push_key)
qed

lemma names_attach_keys: "map tbl_name (attach_keys es ks) = map tbl_name es"
  by (induction ks rule: rev_induct) (simp_all add: attach_keys_def names_push_key)


lemma sample_entities:
  "entities_of sample_rows =
     [\<lparr>tbl_name = ''orders'', tbl_type = TABLE,
       columns = [Column ''id'' ''int4'', Column (quoted ''Total'') ''numeric'', Column ''note'' ''text''],
       keys = []\<rparr>,
      \<lparr>tbl_name = ''users'', tbl_type = TABLE, columns = [Column ''Id'' ''int4''], keys = []\<rparr>]"
  by (simp add: entities_of_def sample_rows_def attribute_row_def reducer_def Table_def
      toLowerCase_def toLowerCaseChar_def Let_def)

text \<open>
  Claim C5. For a constraint row whose owning table is present in the folded result, a key is
  appended to that table's keys, named as the row's constraint and of type \<open>primary_key\<close>
  exactly when the row's kind code is \<open>p\<close>, \<open>foreign_key\<close> for any other code.
\<close>

theorem key_appended_with_kind:
  "find_table es (self_table k) = Some t \<Longrightarrow>
   find_table (push_key es k) (self_table k) =
     Some (t\<lparr>keys := keys t @
        [\<lparr>key_name = constraint_name k,
          key_type = (if constraint_type k = ''p'' then primary_key else foreign_key)\<rparr>]\<rparr>) \<and>
   (key_type (key_of k) = primary_key) = (constraint_type k = ''p'') \<and>
   (key_type (key_of k) = foreign_key) = (constraint_type k \<noteq> ''p'') \<and>
   key_name (key_of k) = constraint_name k"
  using find_table_push_key_same [of es k t] by (simp add: key_of_def)

theorem key_appended_with_kind_witness:
  "find_table (entities_of sample_rows) ''orders'' \<noteq> None \<and>
   map_option keys (find_table
      (push_key (entities_of sample_rows) (constraint_row ''orders_pkey'' ''p'' ''orders'')) ''orders'') =
     Some [\<lparr>key_name = ''orders_pkey'', key_type = primary_key\<rparr>] \<and>
   map_option keys (find_table
      (push_key (entities_of sample_rows) (constraint_row ''orders_user_fkey'' ''f'' ''orders'')) ''orders'') =
     Some [\<lparr>key_name = ''orders_user_fkey'', key_type = foreign_key\<rparr>]"
proof -
  obtain t where t: "find_table (entities_of sample_rows) ''orders'' = Some t" and k: "keys t = []"
    by (simp add: find_table_def sample_entities)
  have p: "self_table (constraint_row ''orders_pkey'' ''p'' ''orders'') = ''orders''"
    and f: "self_table (constraint_row ''orders_user_fkey'' ''f'' ''orders'') = ''orders''"
    by (simp_all add: constraint_row_def)
  show ?thesis
    using key_appended_with_kind [of "entities_of sample_rows" "constraint_row ''orders_pkey'' ''p'' ''orders''" t]
      key_appended_with_kind [of "entities_of sample_rows" "constraint_row ''orders_user_fkey'' ''f'' ''orders''" t]
      t k
    by (simp add: p f) (simp add: constraint_row_def)
qed

text \<open>
  Claim C6. A constraint row that names a table absent from the folded tables changes nothing
  and raises no error. The rows that match a table are appended to its keys in the order of the
  catalog scan, with no deduplication: the keys a table ends with are its former keys followed
  by the key of every row naming it, duplicates included.
\<close>

theorem absent_dropped_matching_appended:
  "(find_table es (self_table k) = None \<longrightarrow> push_key es k = es) \<and>
   map tbl_name (attach_keys es ks) = map tbl_name es \<and>
   find_table (attach_keys es ks) n =
     map_option (\<lambda>t. t\<lparr>keys := keys t @ map key_of (filter (\<lambda>k. self_table k = n) ks)\<rparr>)
       (find_table es n)"
  by (simp add: push_key_absent names_attach_keys find_table_attach_keys)

theorem absent_dropped_matching_appended_witness:
  "find_table (entities_of sample_rows) ''audit'' = None \<and>
   push_key (entities_of sample_rows) (constraint_row ''audit_pkey'' ''p'' ''audit'') =
     entities_of sample_rows \<and>
   map tbl_name (attach_keys (entities_of sample_rows) sample_keys) = [''orders'', ''users''] \<and>
   map_option keys (find_table (attach_keys (entities_of sample_rows) sample_keys) ''orders'') =
     Some [\<lparr>key_name = ''orders_pkey'', key_type = primary_key\<rparr>,
           \<lparr>key_name = ''orders_user_fkey'', key_type = foreign_key\<rparr>,
           \<lparr>key_name = ''orders_pkey'', key_type = primary_key\<rparr>]"
proof -
  note e = sample_entities
  have a: "find_table (entities_of sample_rows) ''audit'' = None"
    by (simp add: e find_table_def)
  have s: "self_table (constraint_row ''audit_pkey'' ''p'' ''audit'') = ''audit''"
    by (simp add: constraint_row_def)
  note T1 = absent_dropped_matching_appended
      [of "entities_of sample_rows" "constraint_row ''audit_pkey'' ''p'' ''audit''" sample_keys "''orders''"]
  have d: "push_key (entities_of sample_rows) (constraint_row ''audit_pkey'' ''p'' ''audit'') =
     entities_of sample_rows"
    using T1 a s by simp
  have n: "map tbl_name (attach_keys (entities_of sample_rows) sample_keys) = [''orders'', ''users'']"
    using T1 by (simp add: e)
  have k: "map_option keys (find_table (attach_keys (entities_of sample_rows) sample_keys) ''orders'') =
     Some [\<lparr>key_name = ''orders_pkey'', key_type = primary_key\<rparr>,
           \<lparr>key_name = ''orders_user_fkey'', key_type = foreign_key\<rparr>,
           \<lparr>key_name = ''orders_pkey'', key_type = primary_key\<rparr>]"
    using T1 by (simp add: e find_table_def sample_keys_def constraint_row_def key_of_def)
  from a d n k show ?thesis by simp
qed

subsection \<open>The schema name is ignored\<close>

lemma filter_eq_distinct: "distinct xs \<Longrightarrow> x \<in> set xs \<Longrightarrow> filter (\<lambda>m. m = x) xs = [x]"
  by (induction xs) (auto simp: filter_empty_conv)

lemma filter_named_spec:
  "filter (\<lambda>t. tbl_name t = n) (map (table_for rows) ns) = map (table_for rows) (filter (\<lambda>m. m = n) ns)"
  by (induction ns) (auto simp: table_for_def)

lemma reducer_ignores_schema: "reducer acc (r\<lparr>schema_name := s\<rparr>) = reducer acc r"
  by (simp add: reducer_def Let_def split: option.splits)

lemma foldl_reducer_ignores_schema:
  "foldl reducer acc (map (\<lambda>r. r\<lparr>schema_name := f r\<rparr>) rows) = foldl reducer acc rows"
  by (induction rows arbitrary: acc) (simp_all add: reducer_ignores_schema)

text \<open>
  Claim C10. The fold keys tables by table name alone and never reads \<open>schema_name\<close>:
  when the stream holds rows of two same-named tables of different schemas, the result has
  one table of that name, holding the columns of both, and changing the schema names of the
  rows changes nothing.
\<close>

theorem same_name_tables_merged:
  assumes "r1 \<in> set rows" and "r2 \<in> set rows"
    and "table_name r1 = table_name r2" and "schema_name r1 \<noteq> schema_name r2"
  shows "filter (\<lambda>t. tbl_name t = table_name r1) (entities_of rows) =
           [\<lparr>tbl_name = table_name r1, tbl_type = TABLE,
             columns = column_list (rows_of (table_name r1) rows), keys = []\<rparr>] \<and>
         r1 \<in> set (rows_of (table_name r1) rows) \<and>
         r2 \<in> set (rows_of (table_name r1) rows) \<and>
         entities_of (map (\<lambda>r. r\<lparr>schema_name := f r\<rparr>) rows) = entities_of rows"
proof -
  have "table_name r1 \<in> set (first_appearance (map table_name rows))"
    using assms(1) by (simp add: set_first_appearance)
  then have "filter (\<lambda>m. m = table_name r1) (first_appearance (map table_name rows)) = [table_name r1]"
    by (simp add: filter_eq_distinct distinct_first_appearance)
  then have a: "filter (\<lambda>t. tbl_name t = table_name r1) (entities_of rows) =
      [table_for rows (table_name r1)]"
    by (simp add: entities_of_spec spec_entities_def filter_named_spec)
  have b: "r1 \<in> set (rows_of (table_name r1) rows)" "r2 \<in> set (rows_of (table_name r1) rows)"
    using assms by (simp_all add: rows_of_def)
  have c: "entities_of (map (\<lambda>r. r\<lparr>schema_name := f r\<rparr>) rows) = entities_of rows"
    by (simp add: entities_of_def foldl_reducer_ignores_schema)
  from a b c show ?thesis by (simp add: table_for_def)
qed

theorem same_name_tables_merged_witness:
  "attribute_row ''id'' ''int4'' ''orders'' ''public'' \<in> set sample_rows \<and>
   attribute_row ''note'' ''text'' ''orders'' ''sales'' \<in> set sample_rows \<and>
   schema_name (attribute_row ''id'' ''int4'' ''orders'' ''public'') \<noteq>
     schema_name (attribute_row ''note'' ''text'' ''orders'' ''sales'') \<and>
   filter (\<lambda>t. tbl_name t = ''orders'') (entities_of sample_rows) =
     [\<lparr>tbl_name = ''orders'', tbl_type = TABLE,
       columns = [Column ''id'' ''int4'', Column (quoted ''Total'') ''numeric'', Column ''note'' ''text''],
       keys = []\<rparr>] \<and>
   entities_of (map (\<lambda>r. r\<lparr>schema_name := ''public''\<rparr>) sample_rows) = entities_of sample_rows"
proof -
  have m: "attribute_row ''id'' ''int4'' ''orders'' ''public'' \<in> set sample_rows"
    "attribute_row ''note'' ''text'' ''orders'' ''sales'' \<in> set sample_rows"
    by (simp_all add: sample_rows_def)
  have t: "table_name (attribute_row ''id'' ''int4'' ''orders'' ''public'') =
           table_name (attribute_row ''note'' ''text'' ''orders'' ''sales'')"
    and s: "schema_name (attribute_row ''id'' ''int4'' ''orders'' ''public'') \<noteq>
            schema_name (attribute_row ''note'' ''text'' ''orders'' ''sales'')"
    and n: "table_name (attribute_row ''id'' ''int4'' ''orders'' ''public'') = ''orders''"
    by (simp_all add: attribute_row_def)
  have c: "column_list (rows_of ''orders'' sample_rows) =
      [Column ''id'' ''int4'', Column (quoted ''Total'') ''numeric'', Column ''note'' ''text'']"
    by (simp add: sample_rows_def attribute_row_def rows_of_def column_list_def plain_column_def
        cased_column_def toLowerCase_def toLowerCaseChar_def)
  show ?thesis
    using same_name_tables_merged [OF m t s, of "\<lambda>r. ''public''"] m s
    by (simp add: n c)
qed

section \<open>Properties of the operations\<close>

subsection \<open>\<open>execute\<close>\<close>

lemmas io_defs = bind_io_def catch_io_def finally_io_def swallow_def return_io_def throw_io_def
  outcome_def calls_def opens_def closes_def statements_def is_connect_def is_query_def
  client_connect_def client_end_def answer_io_def client_query_def client_query_tables_def
  client_query_keys_def client_query_now_def destroyConnection_def executeQuery_def Let_def

lemma createConnection_ok:
  "outcome (createConnection d cfg t) = Inr client \<Longrightarrow>
   createConnection d cfg t = (Inr client, [Connect client])"
  by (auto simp: createConnection_def connect_with_def io_defs Let_def split: option.splits)

text \<open>
  Claim C1, as amended. For every SQL input that is empty (\<open>isEmpty\<close>: absent or of length
  0), once the connection has opened, \<open>execute\<close> returns the output not set, sends no
  statement on the connection, and has opened exactly one connection. A whitespace-only string
  is not empty for \<open>isEmpty\<close>: it is sent to the database like any other statement, as
  the evaluation on a single space below shows.
\<close>

theorem empty_sql_short_circuits:
  assumes "isEmpty body" and "outcome (createConnection d cfg 30000) = Inr client"
  shows "outcome (execute d n cfg body ps) = Inr ExecutionOutput \<and>
         statements (execute d n cfg body ps) = 0 \<and>
         opens (execute d n cfg body ps) = 1"
  using assms(1) createConnection_ok [OF assms(2)]
  by (simp add: execute_def io_defs)

text \<open>
  On this path \<open>execute\<close> returns before its \<open>try\<close>, so the \<open>finally\<close> that closes the
  connection is not reached; the earlier variant tests \<open>isEmpty\<close> inside the \<open>try\<close> and
  closes (\<open>empty_sql_part_000\<close>).
\<close>

lemma empty_sql_leaves_connection_open:
  assumes "isEmpty body" and "outcome (createConnection d cfg 30000) = Inr client"
  shows "closes (execute d n cfg body ps) = 0"
  using assms(1) createConnection_ok [OF assms(2)]
  by (simp add: execute_def io_defs)

text \<open>
  Claim C3. Every failure raised while the user's SQL statement executes is signalled again by
  \<open>execute\<close> as an \<open>IntegrationError\<close> whose message is \<open>Postgres query failed, \<close>
  followed by the driver's message, and the connection that was opened is closed exactly once
  on that path, whether or not the close itself fails.
\<close>

theorem query_failure_wrapped_and_closed:
  assumes "outcome (createConnection d cfg 30000) = Inr client"
    and "\<not> isEmpty body"
    and "user_answer d (text_of body) ps = Inl m"
  shows "outcome (execute d n cfg body ps) =
           Inl (IntegrationError (''Postgres query failed, '' @ m)) \<and>
         closes (execute d n cfg body ps) = 1 \<and>
         opens (execute d n cfg body ps) = 1 \<and>
         calls (execute d n cfg body ps) = [Connect client, Query (text_of body) ps, End]"
  using assms(2,3) createConnection_ok [OF assms(1)]
  by (simp add: execute_def io_defs split: option.splits)


theorem query_failure_wrapped_and_closed_witness:
  "\<not> isl (outcome (createConnection failing_driver (Some sample_datasource) 30000)) \<and>
   \<not> isEmpty (Some ''SELEC 1'') \<and>
   user_answer failing_driver ''SELEC 1'' [] = Inl ''syntax error at or near SELEC'' \<and>
   end_rejects failing_driver = Some ''socket hang up'' \<and>
   outcome (execute failing_driver id (Some sample_datasource) (Some ''SELEC 1'') []) =
     Inl (IntegrationError ''Postgres query failed, syntax error at or near SELEC'') \<and>
   closes (execute failing_driver id (Some sample_datasource) (Some ''SELEC 1'') []) = 1"
proof -
  obtain client where c: "outcome (createConnection failing_driver (Some sample_datasource) 30000) = Inr client"
    by (simp add: createConnection_def connect_with_def sample_datasource_def failing_driver_def
        sample_driver_def database_value_def io_defs)
  have e: "\<not> isEmpty (Some ''SELEC 1'')" by (simp add: isEmpty_def)
  have u: "user_answer failing_driver (text_of (Some ''SELEC 1'')) [] = Inl ''syntax error at or near SELEC''"
    by (simp add: failing_driver_def sample_driver_def)
  have r: "end_rejects failing_driver = Some ''socket hang up''"
    by (simp add: failing_driver_def sample_driver_def)
  show ?thesis
    using query_failure_wrapped_and_closed [OF c e u, of id] c e u r
    by (simp add: text_of_def)
qed

theorem empty_sql_short_circuits_witness:
  "isEmpty (Some []) \<and> isEmpty None \<and>
   outcome (execute sample_driver id (Some sample_datasource) (Some []) []) = Inr ExecutionOutput \<and>
   statements (execute sample_driver id (Some sample_datasource) (Some []) []) = 0 \<and>
   opens (execute sample_driver id (Some sample_datasource) (Some []) []) = 1 \<and>
   outcome (execute sample_driver id (Some sample_datasource) None []) = Inr ExecutionOutput"
proof -
  obtain client where c: "outcome (createConnection sample_driver (Some sample_datasource) 30000) = Inr client"
    by (simp add: createConnection_def connect_with_def sample_datasource_def
        sample_driver_def database_value_def io_defs)
  have e: "isEmpty (Some [])" "isEmpty None" by (simp_all add: isEmpty_def)
  show ?thesis
    using empty_sql_short_circuits [OF e(1) c, of id "[]"] empty_sql_short_circuits [OF e(2) c, of id "[]"] e
    by simp
qed

text \<open>
  A statement made of one space is whitespace-only, and \<open>execute\<close> sends it: one statement
  goes to the driver and its rows come back as the output.
\<close>

theorem whitespace_sql_is_executed:
  "whitespace_only '' '' \<and>
   statements (execute sample_driver id (Some sample_datasource) (Some '' '') []) = 1 \<and>
   outcome (execute sample_driver id (Some sample_datasource) (Some '' '') []) =
     Inr \<lparr>exec_output = Some [[(''count'', ''1'')]]\<rparr>"
  by (simp add: whitespace_only_def execute_def createConnection_def connect_with_def
      sample_datasource_def sample_driver_def database_value_def isEmpty_def text_of_def
      ExecutionOutput_def io_defs)

lemma empty_sql_part_000:
  assumes "isEmpty body" and "outcome (createClient d cfg 30000) = Inr client"
  shows "statements (execute_part_000 d n cfg body ps) = 0 \<and>
         opens (execute_part_000 d n cfg body ps) = 1 \<and>
         closes (execute_part_000 d n cfg body ps) = 1 \<and>
         (end_rejects d = None \<longrightarrow> outcome (execute_part_000 d n cfg body ps) = Inr ExecutionOutput)"
  using assms
  by (auto simp: execute_part_000_def createClient_def connect_with_def io_defs Let_def
      split: option.splits)

lemma createClient_ok:
  "outcome (createClient d cfg t) = Inr client \<Longrightarrow>
   createClient d cfg t = (Inr client, [Connect client])"
  by (auto simp: createClient_def connect_with_def io_defs split: option.splits)

text \<open>
  In the earlier variant \<open>client.end()\<close> is awaited inside \<open>finally\<close>: the connection is
  closed once as well, and the wrapped error reaches the caller unless the close fails too, in
  which case the error of the close replaces it.
\<close>

lemma query_failure_part_000:
  assumes "outcome (createClient d cfg 30000) = Inr client"
    and "\<not> isEmpty body"
    and "user_answer d (text_of body) ps = Inl m"
  shows "outcome (execute_part_000 d n cfg body ps) =
           (case end_rejects d of
              None \<Rightarrow> Inl (IntegrationError (''Postgres query failed, '' @ m))
            | Some m' \<Rightarrow> Inl (DriverError m')) \<and>
         closes (execute_part_000 d n cfg body ps) = 1"
  using assms(2,3) createClient_ok [OF assms(1)]
  by (simp add: execute_part_000_def io_defs split: option.splits)

subsection \<open>\<open>test\<close>\<close>

lemma createConnection_valid:
  assumes "valid_config cfg"
  shows "\<exists>c. calls (createConnection d cfg t) = [Connect c] \<and>
             (outcome (createConnection d cfg t) = Inr c \<or>
              (\<exists>m. outcome (createConnection d cfg t) = Inl (DriverError m)))"
  using assms
  by (auto simp: valid_config_def createConnection_def connect_with_def io_defs
      split: option.splits)

text \<open>
  Claim C7, as amended. For every valid configuration \<open>test\<close> makes exactly one call of
  \<open>connect\<close>; when the connection opens it sends the liveness statement and makes exactly one
  call of \<open>end\<close>, whether the liveness statement succeeds or fails; when \<open>connect\<close> itself
  fails there is no client to close and \<open>end\<close> is not called, as the evaluation on a
  driver that refuses the connection shows.
\<close>

theorem test_open_and_close_counts:
  assumes "valid_config cfg"
  shows "opens (test d cfg) = 1 \<and>
         closes (test d cfg) =
           (if isl (outcome (createConnection d cfg TEST_CONNECTION_TIMEOUT)) then 0 else 1) \<and>
         statements (test d cfg) =
           (if isl (outcome (createConnection d cfg TEST_CONNECTION_TIMEOUT)) then 0 else 1)"
proof -
  obtain c where c: "calls (createConnection d cfg TEST_CONNECTION_TIMEOUT) = [Connect c]"
    and o: "outcome (createConnection d cfg TEST_CONNECTION_TIMEOUT) = Inr c \<or>
            (\<exists>m. outcome (createConnection d cfg TEST_CONNECTION_TIMEOUT) = Inl (DriverError m))"
    using createConnection_valid [OF assms] by blast
  from o show ?thesis
  proof
    assume "outcome (createConnection d cfg TEST_CONNECTION_TIMEOUT) = Inr c"
    with c have "createConnection d cfg TEST_CONNECTION_TIMEOUT = (Inr c, [Connect c])"
      by (simp add: outcome_def calls_def prod_eq_iff)
    then show ?thesis
      by (simp add: test_def io_defs split: sum.splits option.splits)
  next
    assume "\<exists>m. outcome (createConnection d cfg TEST_CONNECTION_TIMEOUT) = Inl (DriverError m)"
    then obtain m where "outcome (createConnection d cfg TEST_CONNECTION_TIMEOUT) = Inl (DriverError m)" ..
    with c have "createConnection d cfg TEST_CONNECTION_TIMEOUT = (Inl (DriverError m), [Connect c])"
      by (simp add: outcome_def calls_def prod_eq_iff)
    then show ?thesis
      by (simp add: test_def io_defs)
  qed
qed

lemma sample_valid: "valid_config (Some sample_datasource)"
  by (simp add: valid_config_def sample_datasource_def database_value_def)

theorem test_open_and_close_counts_witness:
  "valid_config (Some sample_datasource) \<and>
   opens (test sample_driver (Some sample_datasource)) = 1 \<and>
   closes (test sample_driver (Some sample_datasource)) = 1 \<and>
   now_answer failing_driver = Inl ''terminating connection due to administrator command'' \<and>
   opens (test failing_driver (Some sample_datasource)) = 1 \<and>
   closes (test failing_driver (Some sample_datasource)) = 1"
proof -
  have a: "\<not> isl (outcome (createConnection sample_driver (Some sample_datasource) TEST_CONNECTION_TIMEOUT))"
    by (simp add: createConnection_def connect_with_def sample_datasource_def
        sample_driver_def database_value_def io_defs)
  have b: "\<not> isl (outcome (createConnection failing_driver (Some sample_datasource) TEST_CONNECTION_TIMEOUT))"
    by (simp add: createConnection_def connect_with_def sample_datasource_def failing_driver_def
        sample_driver_def database_value_def io_defs)
  have n: "now_answer failing_driver = Inl ''terminating connection due to administrator command''"
    by (simp add: failing_driver_def sample_driver_def)
  show ?thesis
    using test_open_and_close_counts [OF sample_valid, of sample_driver]
      test_open_and_close_counts [OF sample_valid, of failing_driver] a b n sample_valid
    by simp
qed

text \<open>
  A valid configuration whose server refuses the connection: one \<open>connect\<close>, no \<open>end\<close>.
\<close>

theorem test_refused_connection_not_closed:
  "valid_config (Some sample_datasource) \<and>
   opens (test refusing_driver (Some sample_datasource)) = 1 \<and>
   closes (test refusing_driver (Some sample_datasource)) = 0 \<and>
   outcome (test refusing_driver (Some sample_datasource)) =
     Inl (IntegrationError
       ''Test Postgres connection failed, connect ECONNREFUSED 127.0.0.1:5432'')"
  by (simp add: valid_config_def test_def createConnection_def connect_with_def
      sample_datasource_def refusing_driver_def sample_driver_def database_value_def io_defs)

lemma test_part_000_counts:
  assumes "valid_config cfg"
  shows "opens (test_part_000 d cfg) = 1 \<and>
         closes (test_part_000 d cfg) =
           (if isl (outcome (createClient d cfg TEST_CONNECTION_TIMEOUT)) then 0 else 1)"
  using assms
  by (auto simp: valid_config_def test_part_000_def createClient_def connect_with_def io_defs
      split: option.splits sum.splits)

subsection \<open>TLS options\<close>

lemma build_ssl_config_enabled:
  assumes "tls_enabled ds"
  shows "\<exists>s. build_ssl_config (connection ds) = Some s \<and>
             map_of s ''rejectUnauthorized'' = Some (JBool False) \<and>
             attached s ''ca'' = self_signed_mode ds \<and>
             attached s ''key'' = self_signed_mode ds \<and>
             attached s ''cert'' = self_signed_mode ds \<and>
             (self_signed_mode ds \<longrightarrow>
                map_of s ''ca'' = Some (configured ca ds) \<and>
                map_of s ''key'' = Some (configured key ds) \<and>
                map_of s ''cert'' = Some (configured cert ds))"
proof -
  from assms obtain c where c: "connection ds = Some c" and u: "useSsl c"
    by (auto simp: tls_enabled_def split: option.splits)
  show ?thesis
  proof (cases "useSelfSignedSsl c")
    case True
    with c u show ?thesis
      by (simp add: self_signed_mode_def configured_def attached_def build_ssl_config_def)
  next
    case False
    with c u show ?thesis
      by (simp add: self_signed_mode_def configured_def attached_def build_ssl_config_def)
  qed
qed

lemma build_ssl_config_disabled:
  "\<not> tls_enabled ds \<Longrightarrow> build_ssl_config (connection ds) = None"
  by (auto simp: tls_enabled_def build_ssl_config_def split: option.splits)

lemma connect_call_ssl:
  assumes "valid_config (Some ds)"
  shows "\<exists>c. calls (createConnection d (Some ds) t) = [Connect c] \<and>
             calls (createClient d (Some ds) t) = [Connect c] \<and>
             cc_ssl c = build_ssl_config (connection ds)"
  using assms
  by (auto simp: valid_config_def createConnection_def createClient_def connect_with_def io_defs
      split: option.splits)

text \<open>
  Claim C8. For a valid configuration the options handed to the driver carry the TLS option
  set that \<open>createConnection\<close> (and \<open>createClient\<close>) builds. When TLS is enabled the set
  exists and has \<open>rejectUnauthorized\<close> false, and the configured CA, client key and client
  certificate are attached to it if and only if the self-signed mode is selected too; when TLS
  is not enabled no option set is passed (\<open>ssl\<close> is undefined).
\<close>

theorem tls_option_set:
  assumes "valid_config (Some ds)"
  shows "(\<exists>c. calls (createConnection d (Some ds) t) = [Connect c] \<and>
              calls (createClient d (Some ds) t) = [Connect c] \<and>
              cc_ssl c = build_ssl_config (connection ds)) \<and>
         (tls_enabled ds \<longrightarrow>
            (\<exists>s. build_ssl_config (connection ds) = Some s \<and>
                 map_of s ''rejectUnauthorized'' = Some (JBool False) \<and>
                 attached s ''ca'' = self_signed_mode ds \<and>
                 attached s ''key'' = self_signed_mode ds \<and>
                 attached s ''cert'' = self_signed_mode ds \<and>
                 (self_signed_mode ds \<longrightarrow>
                    map_of s ''ca'' = Some (configured ca ds) \<and>
                    map_of s ''key'' = Some (configured key ds) \<and>
                    map_of s ''cert'' = Some (configured cert ds)))) \<and>
         (\<not> tls_enabled ds \<longrightarrow> build_ssl_config (connection ds) = None)"
proof (intro conjI impI)
  show "\<exists>c. calls (createConnection d (Some ds) t) = [Connect c] \<and>
              calls (createClient d (Some ds) t) = [Connect c] \<and>
              cc_ssl c = build_ssl_config (connection ds)"
    by (rule connect_call_ssl [OF assms])
next
  assume "tls_enabled ds"
  then show "\<exists>s. build_ssl_config (connection ds) = Some s \<and>
                 map_of s ''rejectUnauthorized'' = Some (JBool False) \<and>
                 attached s ''ca'' = self_signed_mode ds \<and>
                 attached s ''key'' = self_signed_mode ds \<and>
                 attached s ''cert'' = self_signed_mode ds \<and>
                 (self_signed_mode ds \<longrightarrow>
                    map_of s ''ca'' = Some (configured ca ds) \<and>
                    map_of s ''key'' = Some (configured key ds) \<and>
                    map_of s ''cert'' = Some (configured cert ds))"
    by (rule build_ssl_config_enabled)
next
  assume "\<not> tls_enabled ds"
  then show "build_ssl_config (connection ds) = None"
    by (rule build_ssl_config_disabled)
qed

lemma plain_valid: "valid_config (Some plain_datasource)"
  by (simp add: valid_config_def plain_datasource_def sample_datasource_def database_value_def)

theorem tls_option_set_witness:
  "valid_config (Some sample_datasource) \<and> tls_enabled sample_datasource \<and>
   self_signed_mode sample_datasource \<and>
   build_ssl_config (connection sample_datasource) =
     Some [(''rejectUnauthorized'', JBool False), (''ca'', JStr ''CA''), (''key'', JStr ''KEY''),
           (''cert'', JUndefined)] \<and>
   valid_config (Some plain_datasource) \<and> \<not> tls_enabled plain_datasource \<and>
   map (\<lambda>c. case c of Connect cfg \<Rightarrow> cc_ssl cfg | _ \<Rightarrow> Some [])
     (calls (createConnection sample_driver (Some plain_datasource) 30000)) = [None]"
proof -
  have a: "tls_enabled sample_datasource" "self_signed_mode sample_datasource"
    by (simp_all add: tls_enabled_def self_signed_mode_def sample_datasource_def)
  have b: "\<not> tls_enabled plain_datasource"
    by (simp add: tls_enabled_def plain_datasource_def)
  have s: "build_ssl_config (connection sample_datasource) =
     Some [(''rejectUnauthorized'', JBool False), (''ca'', JStr ''CA''), (''key'', JStr ''KEY''),
           (''cert'', JUndefined)]"
    by (simp add: build_ssl_config_def sample_datasource_def js_of_def)
  have p: "map (\<lambda>c. case c of Connect cfg \<Rightarrow> cc_ssl cfg | _ \<Rightarrow> Some [])
     (calls (createConnection sample_driver (Some plain_datasource) 30000)) = [None]"
    using tls_option_set [OF plain_valid, of sample_driver 30000] b
    by (elim conjE exE) simp
  show ?thesis
    using tls_option_set [OF sample_valid, of sample_driver 30000] a b s p sample_valid plain_valid
    by simp
qed

subsection \<open>\<open>metadata\<close>\<close>

lemma introspect_eq:
  "introspect d =
     (case table_answer d of
        Inl m \<Rightarrow> (Inl (DriverError m), [Query TableQuery []])
      | Inr rows \<Rightarrow>
          (case keys_answer d of
             Inl m \<Rightarrow> (Inl (DriverError m), [Query TableQuery [], Query KeysQuery []])
           | Inr ks \<Rightarrow> (Inr \<lparr>dbSchema_tables = attach_keys (entities_of rows) ks\<rparr>,
                        [Query TableQuery [], Query KeysQuery []])))"
  by (simp add: introspect_def io_defs split: sum.splits)


lemma metadata_connected:
  assumes "outcome (createConnection d cfg 30000) = Inr client"
  shows "outcome (metadata d cfg) =
     (case table_answer d of
        Inl m \<Rightarrow> Inl (IntegrationError (''Failed to connect to Postgres, '' @ m))
      | Inr rows \<Rightarrow>
          (case keys_answer d of
             Inl m \<Rightarrow> Inl (IntegrationError (''Failed to connect to Postgres, '' @ m))
           | Inr ks \<Rightarrow> Inr \<lparr>dbSchema_tables = attach_keys (entities_of rows) ks\<rparr>))"
    and "closes (metadata d cfg) = 1"
  using createConnection_ok [OF assms]
  by (simp_all add: metadata_def introspect_eq bind_io_def catch_io_def finally_io_def
      swallow_def throw_io_def outcome_def calls_def closes_def destroyConnection_def
      client_end_def split: sum.splits option.splits)

lemma metadata_connection_failure_passes:
  assumes "outcome (createConnection d cfg 30000) = Inl e"
  shows "outcome (metadata d cfg) = Inl e \<and> closes (metadata d cfg) = 0"
proof -
  obtain tr where c: "createConnection d cfg 30000 = (Inl e, tr)"
    using assms by (cases "createConnection d cfg 30000") (simp add: outcome_def)
  have "filter (\<lambda>c. c = End) (calls (createConnection d cfg 30000)) = []"
    by (simp add: createConnection_def connect_with_def io_defs split: option.splits)
  then show ?thesis using c
    by (simp add: metadata_def bind_io_def outcome_def calls_def closes_def)
qed

text \<open>
  Claim C9, as amended. Every failure raised inside the \<open>try\<close> block of \<open>metadata\<close>, that
  is, after the connection was established: a failure of either catalog statement, is signalled
  again as an \<open>IntegrationError\<close> whose message is \<open>Failed to connect to Postgres, \<close>
  followed by the original message, and the connection is closed once. So, once connected: if
  the column catalog fails with message \<open>m\<close>, \<open>metadata\<close> fails with the prefix followed by
  \<open>m\<close>; if the column catalog answers and the constraint catalog fails with \<open>m\<close>, likewise;
  if both answer, \<open>metadata\<close> returns the folded tables; and any error \<open>metadata\<close> ends with
  is one of these two. A failure of \<open>createConnection\<close> itself is raised before the \<open>try\<close>
  and leaves \<open>metadata\<close> as it was raised, without the prefix and with nothing closed.
\<close>

theorem catalog_failure_prefixed:
  "(outcome (createConnection d cfg 30000) = Inr client \<longrightarrow>
      (table_answer d = Inl m \<longrightarrow>
         outcome (metadata d cfg) =
           Inl (IntegrationError (''Failed to connect to Postgres, '' @ m))) \<and>
      (table_answer d = Inr rows \<longrightarrow> keys_answer d = Inl m \<longrightarrow>
         outcome (metadata d cfg) =
           Inl (IntegrationError (''Failed to connect to Postgres, '' @ m))) \<and>
      (table_answer d = Inr rows \<longrightarrow> keys_answer d = Inr ks \<longrightarrow>
         outcome (metadata d cfg) =
           Inr \<lparr>dbSchema_tables = attach_keys (entities_of rows) ks\<rparr>) \<and>
      (outcome (metadata d cfg) = Inl e \<longrightarrow>
         starts_with ''Failed to connect to Postgres, '' (message e) \<and>
         (\<exists>m'. e = IntegrationError (''Failed to connect to Postgres, '' @ m') \<and>
               (table_answer d = Inl m' \<or>
                (\<exists>rows'. table_answer d = Inr rows') \<and> keys_answer d = Inl m'))) \<and>
      closes (metadata d cfg) = 1) \<and>
   (outcome (createConnection d cfg 30000) = Inl e \<longrightarrow>
      outcome (metadata d cfg) = Inl e \<and> closes (metadata d cfg) = 0)"
proof (intro conjI impI)
  assume c: "outcome (createConnection d cfg 30000) = Inr client"
  note eq = metadata_connected(1) [OF c]
  show "closes (metadata d cfg) = 1" by (rule metadata_connected(2) [OF c])
  {
    assume "table_answer d = Inl m"
    then show "outcome (metadata d cfg) =
        Inl (IntegrationError (''Failed to connect to Postgres, '' @ m))"
      by (simp add: eq)
  }
  {
    assume "table_answer d = Inr rows" and "keys_answer d = Inl m"
    then show "outcome (metadata d cfg) =
        Inl (IntegrationError (''Failed to connect to Postgres, '' @ m))"
      by (simp add: eq)
  }
  {
    assume "table_answer d = Inr rows" and "keys_answer d = Inr ks"
    then show "outcome (metadata d cfg) =
        Inr \<lparr>dbSchema_tables = attach_keys (entities_of rows) ks\<rparr>"
      by (simp add: eq)
  }
  {
    assume f: "outcome (metadata d cfg) = Inl e"
    then show ex: "\<exists>m'. e = IntegrationError (''Failed to connect to Postgres, '' @ m') \<and>
               (table_answer d = Inl m' \<or>
                (\<exists>rows'. table_answer d = Inr rows') \<and> keys_answer d = Inl m')"
      unfolding eq by (auto split: sum.splits)
    then show "starts_with ''Failed to connect to Postgres, '' (message e)"
      by (auto simp: starts_with_def)
  }
next
  assume "outcome (createConnection d cfg 30000) = Inl e"
  then show "outcome (metadata d cfg) = Inl e" and "closes (metadata d cfg) = 0"
    using metadata_connection_failure_passes by blast+
qed

theorem catalog_failure_prefixed_witness:
  "\<not> isl (outcome (createConnection failing_driver (Some sample_datasource) 30000)) \<and>
   keys_answer failing_driver = Inl ''permission denied for table pg_constraint'' \<and>
   outcome (metadata failing_driver (Some sample_datasource)) =
     Inl (IntegrationError
       ''Failed to connect to Postgres, permission denied for table pg_constraint'') \<and>
   closes (metadata failing_driver (Some sample_datasource)) = 1 \<and>
   table_answer table_failing_driver = Inl ''permission denied for table pg_attribute'' \<and>
   outcome (metadata table_failing_driver (Some sample_datasource)) =
     Inl (IntegrationError
       ''Failed to connect to Postgres, permission denied for table pg_attribute'') \<and>
   outcome (metadata sample_driver (Some sample_datasource)) =
     Inr \<lparr>dbSchema_tables = attach_keys (entities_of sample_rows) sample_keys\<rparr> \<and>
   outcome (createConnection refusing_driver (Some sample_datasource) 30000) =
     Inl (DriverError ''connect ECONNREFUSED 127.0.0.1:5432'') \<and>
   outcome (metadata refusing_driver (Some sample_datasource)) =
     Inl (DriverError ''connect ECONNREFUSED 127.0.0.1:5432'') \<and>
   closes (metadata refusing_driver (Some sample_datasource)) = 0"
proof -
  obtain c1 where c1: "outcome (createConnection failing_driver (Some sample_datasource) 30000) = Inr c1"
    by (simp add: createConnection_def connect_with_def sample_datasource_def failing_driver_def
        sample_driver_def database_value_def io_defs)
  obtain c2 where c2: "outcome (createConnection table_failing_driver (Some sample_datasource) 30000) = Inr c2"
    by (simp add: createConnection_def connect_with_def sample_datasource_def failing_driver_def
        table_failing_driver_def sample_driver_def database_value_def io_defs)
  obtain c3 where c3: "outcome (createConnection sample_driver (Some sample_datasource) 30000) = Inr c3"
    by (simp add: createConnection_def connect_with_def sample_datasource_def
        sample_driver_def database_value_def io_defs)
  have c4: "outcome (createConnection refusing_driver (Some sample_datasource) 30000) =
      Inl (DriverError ''connect ECONNREFUSED 127.0.0.1:5432'')"
    by (simp add: createConnection_def connect_with_def sample_datasource_def
        refusing_driver_def sample_driver_def database_value_def io_defs)
  have k1: "keys_answer failing_driver = Inl ''permission denied for table pg_constraint''"
    and t1: "table_answer failing_driver = Inr sample_rows"
    by (simp_all add: failing_driver_def sample_driver_def)
  have t2: "table_answer table_failing_driver = Inl ''permission denied for table pg_attribute''"
    by (simp add: table_failing_driver_def)
  have t3: "table_answer sample_driver = Inr sample_rows"
    and k3: "keys_answer sample_driver = Inr sample_keys"
    by (simp_all add: sample_driver_def)
  note W1 = catalog_failure_prefixed
    [of failing_driver "Some sample_datasource" c1
        "''permission denied for table pg_constraint''" sample_rows,
     THEN conjunct1, THEN mp, OF c1]
  note W2 = catalog_failure_prefixed
    [of table_failing_driver "Some sample_datasource" c2
        "''permission denied for table pg_attribute''",
     THEN conjunct1, THEN mp, OF c2]
  note W3 = catalog_failure_prefixed
    [of sample_driver "Some sample_datasource" c3 _ sample_rows sample_keys,
     THEN conjunct1, THEN mp, OF c3]
  note W4 = catalog_failure_prefixed
    [of refusing_driver "Some sample_datasource" _ _ _ _
        "DriverError ''connect ECONNREFUSED 127.0.0.1:5432''",
     THEN conjunct2, THEN mp, OF c4]
  have r1: "outcome (metadata failing_driver (Some sample_datasource)) =
     Inl (IntegrationError
       (''Failed to connect to Postgres, '' @ ''permission denied for table pg_constraint''))"
    by (rule W1 [THEN conjunct2, THEN conjunct1, THEN mp, THEN mp, OF t1 k1])
  have r1': "closes (metadata failing_driver (Some sample_datasource)) = 1"
    by (rule W1 [THEN conjunct2, THEN conjunct2, THEN conjunct2, THEN conjunct2])
  have r2: "outcome (metadata table_failing_driver (Some sample_datasource)) =
     Inl (IntegrationError
       (''Failed to connect to Postgres, '' @ ''permission denied for table pg_attribute''))"
    by (rule W2 [THEN conjunct1, THEN mp, OF t2])
  have r3: "outcome (metadata sample_driver (Some sample_datasource)) =
     Inr \<lparr>dbSchema_tables = attach_keys (entities_of sample_rows) sample_keys\<rparr>"
    by (rule W3 [THEN conjunct2, THEN conjunct2, THEN conjunct1, THEN mp, THEN mp, OF t3 k3])
  have r4: "outcome (metadata refusing_driver (Some sample_datasource)) =
     Inl (DriverError ''connect ECONNREFUSED 127.0.0.1:5432'')"
    by (rule W4 [THEN conjunct1])
  have r4': "closes (metadata refusing_driver (Some sample_datasource)) = 0"
    by (rule W4 [THEN conjunct2])
  have n1: "\<not> isl (outcome (createConnection failing_driver (Some sample_datasource) 30000))"
    by (simp add: c1)
  from n1 k1 r1 r1' t2 r2 r3 c4 r4 r4' show ?thesis
    by (intro conjI) simp_all
qed

text \<open>
  A refused connection and a missing configuration: \<open>metadata\<close> fails with the error of
  \<open>createConnection\<close>, whose message does not begin with the prefix.
\<close>

theorem metadata_connection_failure_unprefixed:
  "outcome (metadata refusing_driver (Some sample_datasource)) =
     Inl (DriverError ''connect ECONNREFUSED 127.0.0.1:5432'') \<and>
   \<not> starts_with ''Failed to connect to Postgres, ''
       (message (DriverError ''connect ECONNREFUSED 127.0.0.1:5432'')) \<and>
   outcome (metadata sample_driver None) =
     Inl (IntegrationError ''Datasource not found for Postgres step'') \<and>
   \<not> starts_with ''Failed to connect to Postgres, ''
       (message (IntegrationError ''Datasource not found for Postgres step''))"
proof -
  have a: "outcome (createConnection refusing_driver (Some sample_datasource) 30000) =
      Inl (DriverError ''connect ECONNREFUSED 127.0.0.1:5432'')"
    by (simp add: createConnection_def connect_with_def sample_datasource_def
        refusing_driver_def sample_driver_def database_value_def io_defs)
  have b: "outcome (createConnection sample_driver None 30000) =
      Inl (IntegrationError ''Datasource not found for Postgres step'')"
    by (simp add: createConnection_def io_defs)
  show ?thesis
    using metadata_connection_failure_passes [OF a] metadata_connection_failure_passes [OF b]
    by (simp add: starts_with_def)
qed

lemma metadata_part_000_connection_failure:
  assumes "outcome (createClient d cfg 30000) = Inl e"
  shows "outcome (metadata_part_000 d cfg) =
           Inl (IntegrationError (''Failed to connect to Postgres, '' @ message e))"
proof -
  obtain tr where c: "createClient d cfg 30000 = (Inl e, tr)"
    using assms by (cases "createClient d cfg 30000") (simp add: outcome_def)
  show ?thesis
    by (simp add: metadata_part_000_def c bind_io_def catch_io_def finally_io_def throw_io_def
        return_io_def outcome_def)
qed

end
